theory Spec2Isabelle
  imports Complex_Main
begin

section \<open>Values carried by socket events\<close>

text \<open>
  The handlers of \<^verbatim>\<open>SocketContext.tsx\<close> receive their payloads typed \<^verbatim>\<open>any\<close>: what
  arrives is whatever JSON the server sent. A payload is therefore a JavaScript value.
  \<^verbatim>\<open>undefined\<close> is a value of its own, since reading an absent property yields it.
  A number is modelled by the real it denotes; the handlers never compute with numbers,
  they only test and copy them.
\<close>

datatype jsval =
    JUndefined
  | JNull
  | JBool bool
  | JNum real
  | JStr string
  | JArr "jsval list"
  | JObj "(string \<times> jsval) list"

text \<open>
  An exception thrown by a call. \<open>TypeError\<close> is what JavaScript throws when a property
  of \<^verbatim>\<open>null\<close> or \<^verbatim>\<open>undefined\<close> is read. \<open>LifecycleViolation\<close> and
  \<open>ChannelUnavailable\<close> are the failures the specification names for operator commands;
  no function of the source throws them, they are here so that "the call fails with ..."
  can be stated about a result.
\<close>

datatype error = TypeError | LifecycleViolation | ChannelUnavailable

text \<open>\<^verbatim>\<open>v == null\<close>: the values on which \<^verbatim>\<open>??\<close> and \<^verbatim>\<open>?.\<close> give way.\<close>

fun nullish :: "jsval \<Rightarrow> bool" where
  "nullish JUndefined = True"
| "nullish JNull = True"
| "nullish _ = False"

text \<open>JavaScript truthiness, as \<^verbatim>\<open>||\<close> and \<^verbatim>\<open>? :\<close> test it.\<close>

fun truthy :: "jsval \<Rightarrow> bool" where
  "truthy JUndefined = False"
| "truthy JNull = False"
| "truthy (JBool b) = b"
| "truthy (JNum x) = (x \<noteq> 0)"
| "truthy (JStr s) = (s \<noteq> [])"
| "truthy (JArr _) = True"
| "truthy (JObj _) = True"

text \<open>
  \<^verbatim>\<open>v.k\<close> on a value that is neither \<^verbatim>\<open>null\<close> nor \<^verbatim>\<open>undefined\<close>. An object holds
  its properties as an association list (the first binding of a key is the one read).
  None of the keys the handlers read is a built-in property of a string, a number, a
  boolean or an array, so on those the read yields \<^verbatim>\<open>undefined\<close>.
\<close>

fun get_prop :: "jsval \<Rightarrow> string \<Rightarrow> jsval" where
  "get_prop (JObj kvs) k = (case map_of kvs k of Some v \<Rightarrow> v | None \<Rightarrow> JUndefined)"
| "get_prop _ k = JUndefined"

text \<open>\<^verbatim>\<open>v.k\<close> in general: reading a property of a nullish value throws.\<close>

definition read_prop :: "jsval \<Rightarrow> string \<Rightarrow> error + jsval" where
  "read_prop v k = (if nullish v then Inl TypeError else Inr (get_prop v k))"

text \<open>\<^verbatim>\<open>v?.k\<close>: optional chaining.\<close>

definition opt_prop :: "jsval \<Rightarrow> string \<Rightarrow> jsval" where
  "opt_prop v k = (if nullish v then JUndefined else get_prop v k)"

text \<open>\<^verbatim>\<open>a || b\<close> and \<^verbatim>\<open>a ?? b\<close>.\<close>

definition or_else :: "jsval \<Rightarrow> jsval \<Rightarrow> jsval" where
  "or_else a b = (if truthy a then a else b)"

definition coalesce :: "jsval \<Rightarrow> jsval \<Rightarrow> jsval" where
  "coalesce a b = (if nullish a then b else a)"

text \<open>
  \<^verbatim>\<open>String.prototype.trim\<close>. A string is the list of its code units, and \<^typ>\<open>char\<close>
  holds the code units below 256. Among those the white space and line terminators of
  JavaScript are tab, line feed, vertical tab, form feed, carriage return, space and the
  no-break space U+00A0.
\<close>

definition is_space :: "char \<Rightarrow> bool" where
  "is_space c =
     (c \<in> set [CHR 0x20, CHR 0x09, CHR 0x0A, CHR 0x0B, CHR 0x0C, CHR 0x0D, CHR 0xA0])"

definition trim :: "string \<Rightarrow> string" where
  "trim s = rev (dropWhile is_space (rev (dropWhile is_space s)))"

text \<open>
  The string conversion a template literal applies to a value (\<^verbatim>\<open>ToString\<close>), for the
  values JSON can carry. The first argument is the conversion of numbers. An array is
  joined with commas, a \<^verbatim>\<open>null\<close> or \<^verbatim>\<open>undefined\<close> element giving the empty string. An
  object is converted by the \<^verbatim>\<open>toString\<close> it inherits, unless it has a property of its
  own under that name: a JSON value is not callable, \<^verbatim>\<open>valueOf\<close> returns the object
  itself, and the conversion throws.
\<close>

fun join_commas :: "string list \<Rightarrow> string" where
  "join_commas [] = []"
| "join_commas [x] = x"
| "join_commas (x # y # ys) = x @ '','' @ join_commas (y # ys)"

fun to_string :: "(real \<Rightarrow> string) \<Rightarrow> jsval \<Rightarrow> error + string"
  and to_strings :: "(real \<Rightarrow> string) \<Rightarrow> jsval list \<Rightarrow> error + string list" where
  "to_string num JUndefined = Inr ''undefined''"
| "to_string num JNull = Inr ''null''"
| "to_string num (JBool b) = Inr (if b then ''true'' else ''false'')"
| "to_string num (JNum x) = Inr (num x)"
| "to_string num (JStr s) = Inr s"
| "to_string num (JArr vs) =
     (case to_strings num vs of Inl err \<Rightarrow> Inl err | Inr ss \<Rightarrow> Inr (join_commas ss))"
| "to_string num (JObj kvs) =
     (case map_of kvs ''toString'' of
        Some m \<Rightarrow> Inl TypeError
      | None \<Rightarrow> Inr ''[object Object]'')"
| "to_strings num [] = Inr []"
| "to_strings num (v # vs) =
     (case (if nullish v then Inr [] else to_string num v) of
        Inl err \<Rightarrow> Inl err
      | Inr x \<Rightarrow>
          (case to_strings num vs of Inl err \<Rightarrow> Inl err | Inr xs \<Rightarrow> Inr (x # xs)))"

text \<open>The decimal digits of a natural number: \<^verbatim>\<open>`${Date.now()}`\<close>.\<close>

definition digit_char :: "nat \<Rightarrow> char" where
  "digit_char d = ''0123456789'' ! d"

fun show_nat :: "nat \<Rightarrow> string" where
  "show_nat n =
     (if n < 10 then [digit_char n] else show_nat (n div 10) @ [digit_char (n mod 10)])"

declare show_nat.simps [simp del]


section \<open>The data model of \<^verbatim>\<open>SocketContext.tsx\<close>\<close>

text \<open>
  \<^verbatim>\<open>interface Alert\<close>. The type annotations of TypeScript are erased at run time, and
  the \<^verbatim>\<open>alert\<close> handler writes \<^verbatim>\<open>payload.type\<close> and \<^verbatim>\<open>details.severity\<close> into the
  record through a cast (\<^verbatim>\<open>as Alert['type']\<close>, \<^verbatim>\<open>as Alert['severity']\<close>) that checks
  nothing. A field filled from a payload therefore has type \<^typ>\<open>jsval\<close>: it holds what
  the payload carried. \<open>alert_id\<close> is the field \<^verbatim>\<open>id\<close> and \<open>alert_type\<close> the field
  \<^verbatim>\<open>type\<close>. An optional field that is absent holds \<^term>\<open>JUndefined\<close>
  (\<^term>\<open>None\<close> for \<^verbatim>\<open>assigned_to\<close>, which no handler fills from a payload).
\<close>

datatype status = Pending | Reviewing | Dispatched | Resolved | False_positive

record location =
  lat :: jsval
  lng :: jsval
  address :: jsval

record alert =
  alert_id :: string
  alert_type :: jsval
  severity :: jsval
  confidence :: real
  timestamp :: jsval
  location :: location
  camera_id :: jsval
  tourist_ids :: jsval
  evidence :: jsval
  status :: status
  assigned_to :: "string option"
  description :: jsval

text \<open>\<^verbatim>\<open>interface TouristLocation\<close> and \<^verbatim>\<open>interface SystemStatus\<close>.\<close>

datatype tourist_status = Active | Inactive | Emergency

record tourist_location =
  tourist_id :: string
  tl_lat :: real
  tl_lng :: real
  tl_timestamp :: string
  battery_level :: "real option"
  heart_rate :: "real option"
  tl_status :: tourist_status

datatype health = Healthy | Warning | Critical

record system_status =
  cameras_online :: real
  cameras_total :: real
  tourists_active :: real
  alerts_pending :: real
  system_health :: health

text \<open>
  What \<^verbatim>\<open>socket.emit\<close> sends: the four outbound events, with their arguments.
\<close>

datatype out_msg =
    Send_alert jsval
  | Update_alert_status string status "string option"
  | Subscribe_camera string
  | Unsubscribe_camera string

text \<open>
  The state of \<^verbatim>\<open>SocketProvider\<close>: its five \<^verbatim>\<open>useState\<close> cells, and the messages
  emitted so far (newest last), each with the socket it was emitted on. A socket is
  known by a handle. The inbound handlers are registered by the effect that runs when
  the user changes; the \<^verbatim>\<open>sendAlert\<close> they can call is the one of the render that ran
  the effect, which closed over that render's \<^verbatim>\<open>socket\<close> and \<^verbatim>\<open>connected\<close>:
  \<open>effect_socket\<close> and \<open>effect_connected\<close> keep these two values.
\<close>

type_synonym socket = nat

record state =
  socket :: "socket option"
  connected :: bool
  alerts :: "alert list"
  touristLocations :: "tourist_location list"
  systemStatus :: system_status
  emitted :: "(socket \<times> out_msg) list"
  effect_socket :: "socket option"
  effect_connected :: bool

definition initial_state :: state where
  "initial_state =
     \<lparr> socket = None, connected = False, alerts = [], touristLocations = [],
       systemStatus = \<lparr> cameras_online = 0, cameras_total = 0, tourists_active = 0,
         alerts_pending = 0, system_health = Healthy \<rparr>,
       emitted = [], effect_socket = None, effect_connected = False \<rparr>"

text \<open>
  What a handler reads from outside the payload: \<^verbatim>\<open>Date.now()\<close>, the characters
  \<^verbatim>\<open>Math.random().toString(36).slice(2, 8)\<close> (six at most), \<^verbatim>\<open>new Date().toISOString()\<close>, and the
  string conversion of numbers (\<^verbatim>\<open>Number.prototype.toString\<close>).
\<close>

record env =
  date_now :: nat
  random36 :: string
  iso_string :: string
  number_to_string :: "real \<Rightarrow> string"


section \<open>Outbound commands\<close>

text \<open>
  \<^verbatim>\<open>sendAlert\<close>, \<^verbatim>\<open>updateAlertStatus\<close>, \<^verbatim>\<open>subscribeToCamera\<close> and
  \<^verbatim>\<open>unsubscribeFromCamera\<close>: each is \<^verbatim>\<open>if (socket && connected) socket.emit(...)\<close>
  with no \<^verbatim>\<open>else\<close>. A call returns (\<open>Inr\<close>, with the state after it) or throws
  (\<open>Inl\<close>). \<open>guarded_emit\<close> is that statement, for the \<^verbatim>\<open>socket\<close> and \<^verbatim>\<open>connected\<close>
  the function closed over.
\<close>

definition guarded_emit :: "socket option \<Rightarrow> bool \<Rightarrow> out_msg \<Rightarrow> state \<Rightarrow> error + state" where
  "guarded_emit sock conn m s =
     (case sock of
        Some k \<Rightarrow> (if conn then Inr (s\<lparr>emitted := emitted s @ [(k, m)]\<rparr>) else Inr s)
      | None \<Rightarrow> Inr s)"

text \<open>The four commands as a component calls them, from the current render.\<close>

definition sendAlert :: "jsval \<Rightarrow> state \<Rightarrow> error + state" where
  "sendAlert a s = guarded_emit (socket s) (connected s) (Send_alert a) s"

definition updateAlertStatus ::
  "string \<Rightarrow> status \<Rightarrow> string option \<Rightarrow> state \<Rightarrow> error + state" where
  "updateAlertStatus alertId st assignedTo s =
     guarded_emit (socket s) (connected s) (Update_alert_status alertId st assignedTo) s"

definition subscribeToCamera :: "string \<Rightarrow> state \<Rightarrow> error + state" where
  "subscribeToCamera cameraId s =
     guarded_emit (socket s) (connected s) (Subscribe_camera cameraId) s"

definition unsubscribeFromCamera :: "string \<Rightarrow> state \<Rightarrow> error + state" where
  "unsubscribeFromCamera cameraId s =
     guarded_emit (socket s) (connected s) (Unsubscribe_camera cameraId) s"

text \<open>
  A run of commands, one after the other, stopping at the first that throws.
\<close>

datatype command =
    SendAlert jsval
  | UpdateAlertStatus string status "string option"
  | SubscribeToCamera string
  | UnsubscribeFromCamera string

fun exec :: "command \<Rightarrow> state \<Rightarrow> error + state" where
  "exec (SendAlert a) s = sendAlert a s"
| "exec (UpdateAlertStatus alertId st assignedTo) s = updateAlertStatus alertId st assignedTo s"
| "exec (SubscribeToCamera cameraId) s = subscribeToCamera cameraId s"
| "exec (UnsubscribeFromCamera cameraId) s = unsubscribeFromCamera cameraId s"

fun run :: "command list \<Rightarrow> state \<Rightarrow> error + state" where
  "run [] s = Inr s"
| "run (c # cs) s = (case exec c s of Inl err \<Rightarrow> Inl err | Inr s' \<Rightarrow> run cs s')"


section \<open>Inbound handlers\<close>

text \<open>\<^verbatim>\<open>`${Date.now()}_${Math.random().toString(36).slice(2, 8)}`\<close>.\<close>

definition fresh_id :: "env \<Rightarrow> string" where
  "fresh_id e = show_nat (date_now e) @ ''_'' @ random36 e"

text \<open>\<^verbatim>\<open>typeof v === 'number' ? v : d\<close>.\<close>

definition typeof_number_or :: "jsval \<Rightarrow> real \<Rightarrow> real" where
  "typeof_number_or v d = (case v of JNum x \<Rightarrow> x | _ \<Rightarrow> d)"

text \<open>
  The body of the \<^verbatim>\<open>try\<close> block of the \<^verbatim>\<open>alert\<close> handler, up to the record
  \<^verbatim>\<open>mapped\<close>. \<^verbatim>\<open>payload?.details\<close> tolerates a nullish payload; \<^verbatim>\<open>payload.type\<close>,
  two lines below, does not and throws.
\<close>

definition map_alert :: "env \<Rightarrow> jsval \<Rightarrow> error + alert" where
  "map_alert e payload =
     (let details = or_else (opt_prop payload ''details'') (JObj []);
          loc = or_else (get_prop details ''location'') (JObj [])
      in case read_prop payload ''type'' of
           Inl err \<Rightarrow> Inl err
         | Inr ptype \<Rightarrow>
            (case read_prop payload ''timestamp'' of
               Inl err \<Rightarrow> Inl err
             | Inr ptimestamp \<Rightarrow>
                 Inr \<lparr> alert_id = fresh_id e,
                       alert_type = or_else ptype (JStr ''violence''),
                       severity = or_else (get_prop details ''severity'') (JStr ''high''),
                       confidence = typeof_number_or (get_prop details ''confidence'') (8 / 10),
                       timestamp = or_else ptimestamp (JStr (iso_string e)),
                       location =
                         \<lparr> lat = coalesce (get_prop loc ''lat'')
                                   (coalesce (get_prop loc ''latitude'') (JNum 0)),
                           lng = coalesce (get_prop loc ''lng'')
                                   (coalesce (get_prop loc ''longitude'') (JNum 0)),
                           address = get_prop loc ''address'' \<rparr>,
                       camera_id = get_prop details ''camera_id'',
                       tourist_ids = or_else (get_prop details ''tourist_ids'') (JArr []),
                       evidence = get_prop details ''evidence'',
                       status = Pending,
                       assigned_to = None,
                       description =
                         or_else (get_prop details ''description'') (JStr ''Alert received'') \<rparr>))"

text \<open>
  The \<^verbatim>\<open>alert\<close> handler: \<^verbatim>\<open>setAlerts(prev => [mapped, ...prev])\<close>, or, when the body
  threw, the \<^verbatim>\<open>catch\<close> that logs and leaves the state alone.
\<close>

definition on_alert :: "env \<Rightarrow> jsval \<Rightarrow> state \<Rightarrow> state" where
  "on_alert e payload s =
     (case map_alert e payload of
        Inl err \<Rightarrow> s
      | Inr mapped \<Rightarrow> s\<lparr>alerts := mapped # alerts s\<rparr>)"

text \<open>
  The same for the \<^verbatim>\<open>tourist_violence_alert\<close> handler. Its template literal converts
  \<^verbatim>\<open>payload.tourist_name || ''\<close> to a string, which can throw; the \<^verbatim>\<open>catch\<close> then drops
  the event.
\<close>

definition map_tourist_violence_alert :: "env \<Rightarrow> jsval \<Rightarrow> error + alert" where
  "map_tourist_violence_alert e payload =
     (let loc = or_else (opt_prop payload ''location'') (JObj [])
      in case read_prop payload ''camera_id'' of
           Inl err \<Rightarrow> Inl err
         | Inr pcamera \<Rightarrow>
            (case read_prop payload ''tourist_id'' of
               Inl err \<Rightarrow> Inl err
             | Inr ptourist \<Rightarrow>
                (case read_prop payload ''tourist_name'' of
                   Inl err \<Rightarrow> Inl err
                 | Inr pname \<Rightarrow>
                   (case to_string (number_to_string e) (or_else pname (JStr '''')) of
                      Inl err \<Rightarrow> Inl err
                    | Inr name \<Rightarrow>
                     Inr \<lparr> alert_id = fresh_id e,
                           alert_type = JStr ''violence'',
                           severity = JStr ''high'',
                           confidence = 9 / 10,
                           timestamp = JStr (iso_string e),
                           location =
                             \<lparr> lat = coalesce (get_prop loc ''lat'')
                                       (coalesce (get_prop loc ''latitude'') (JNum 0)),
                               lng = coalesce (get_prop loc ''lng'')
                                       (coalesce (get_prop loc ''longitude'') (JNum 0)),
                               address = JUndefined \<rparr>,
                           camera_id = pcamera,
                           tourist_ids = (if truthy ptourist then JArr [ptourist] else JArr []),
                           evidence = JUndefined,
                           status = Pending,
                           assigned_to = None,
                           description =
                             JStr (trim (''Violence detected near tourist '' @ name))
                         \<rparr>))))"

definition on_tourist_violence_alert :: "env \<Rightarrow> jsval \<Rightarrow> state \<Rightarrow> state" where
  "on_tourist_violence_alert e payload s =
     (case map_tourist_violence_alert e payload of
        Inl err \<Rightarrow> s
      | Inr mapped \<Rightarrow> s\<lparr>alerts := mapped # alerts s\<rparr>)"

text \<open>\<^verbatim>\<open>connect\<close> and \<^verbatim>\<open>disconnect\<close>: \<^verbatim>\<open>setConnected\<close>.\<close>

definition on_connect :: "state \<Rightarrow> state" where
  "on_connect s = s\<lparr>connected := True\<rparr>"

definition on_disconnect :: "state \<Rightarrow> state" where
  "on_disconnect s = s\<lparr>connected := False\<rparr>"

text \<open>
  \<^verbatim>\<open>new_alert\<close>: \<^verbatim>\<open>setAlerts(prev => [alert, ...prev])\<close>. The toast that follows writes
  no state.
\<close>

definition on_new_alert :: "alert \<Rightarrow> state \<Rightarrow> state" where
  "on_new_alert a s = s\<lparr>alerts := a # alerts s\<rparr>"

text \<open>
  \<^verbatim>\<open>alert_updated\<close>:
  \<^verbatim>\<open>setAlerts(prev => prev.map(alert => alert.id === updatedAlert.id ? updatedAlert : alert))\<close>.
\<close>

definition on_alert_updated :: "alert \<Rightarrow> state \<Rightarrow> state" where
  "on_alert_updated updatedAlert s =
     s\<lparr>alerts := map (\<lambda>a. if alert_id a = alert_id updatedAlert then updatedAlert else a)
                    (alerts s)\<rparr>"

text \<open>\<^verbatim>\<open>tourist_location_update\<close> and \<^verbatim>\<open>system_status_update\<close>.\<close>

definition on_tourist_location_update :: "tourist_location list \<Rightarrow> state \<Rightarrow> state" where
  "on_tourist_location_update locations s = s\<lparr>touristLocations := locations\<rparr>"

definition on_system_status_update :: "system_status \<Rightarrow> state \<Rightarrow> state" where
  "on_system_status_update st s = s\<lparr>systemStatus := st\<rparr>"

text \<open>
  \<^verbatim>\<open>iot_band_update\<close>: when \<^verbatim>\<open>data.alert_type\<close> is truthy, build a partial alert and
  hand it to the \<^verbatim>\<open>sendAlert\<close> the effect closed over. The handler has no \<^verbatim>\<open>try\<close>:
  a nullish \<^verbatim>\<open>data\<close> throws out of it.
\<close>

definition on_iot_band_update :: "jsval \<Rightarrow> state \<Rightarrow> error + state" where
  "on_iot_band_update data s =
     (case read_prop data ''alert_type'' of
        Inl err \<Rightarrow> Inl err
      | Inr t \<Rightarrow>
          if truthy t then
            guarded_emit (effect_socket s) (effect_connected s)
              (Send_alert (JObj
                [(''type'', t),
                 (''severity'', or_else (get_prop data ''severity'') (JStr ''medium'')),
                 (''confidence'', or_else (get_prop data ''confidence'') (JNum (8 / 10))),
                 (''location'', get_prop data ''location''),
                 (''tourist_ids'', JArr [get_prop data ''tourist_id'']),
                 (''description'',
                    or_else (get_prop data ''description'') (JStr ''IoT Band Alert''))])) s
          else Inr s)"

text \<open>
  The effect body for a logged-in user: it opens \<^verbatim>\<open>newSocket\<close>, registers the handlers
  above on it and calls \<^verbatim>\<open>setSocket(newSocket)\<close>.
\<close>

definition run_effect :: "socket \<Rightarrow> state \<Rightarrow> state" where
  "run_effect newSocket s =
     s\<lparr>effect_socket := socket s, effect_connected := connected s, socket := Some newSocket\<rparr>"

text \<open>
  The inbound events, by the name they are registered under, and their dispatch. An
  exception that leaves a handler writes no state.
\<close>

datatype event =
    Ev_alert env jsval
  | Ev_tourist_violence_alert env jsval
  | Ev_connect
  | Ev_disconnect
  | Ev_new_alert alert
  | Ev_alert_updated alert
  | Ev_tourist_location_update "tourist_location list"
  | Ev_system_status_update system_status
  | Ev_iot_band_update jsval

fun handle :: "event \<Rightarrow> state \<Rightarrow> state" where
  "handle (Ev_alert e payload) s = on_alert e payload s"
| "handle (Ev_tourist_violence_alert e payload) s = on_tourist_violence_alert e payload s"
| "handle Ev_connect s = on_connect s"
| "handle Ev_disconnect s = on_disconnect s"
| "handle (Ev_new_alert a) s = on_new_alert a s"
| "handle (Ev_alert_updated a) s = on_alert_updated a s"
| "handle (Ev_tourist_location_update locations) s = on_tourist_location_update locations s"
| "handle (Ev_system_status_update st) s = on_system_status_update st s"
| "handle (Ev_iot_band_update data) s =
     (case on_iot_band_update data s of Inl err \<Rightarrow> s | Inr s' \<Rightarrow> s')"

text \<open>
  Events are handled one at a time, in arrival order. \<open>feed\<close> composes the handlers
  alone: what a render between two events does to the stored array is
  \<open>render_alert_summary\<close> below.
\<close>

fun feed :: "event list \<Rightarrow> state \<Rightarrow> state" where
  "feed [] s = s"
| "feed (ev # evs) s = feed evs (handle ev s)"

text \<open>
  The alert an event puts into the store, if it creates one: the record \<^verbatim>\<open>mapped\<close> of
  the two normalising handlers when their body did not throw, the pushed record of
  \<^verbatim>\<open>new_alert\<close>.
\<close>

fun created :: "event \<Rightarrow> alert option" where
  "created (Ev_alert e payload) =
     (case map_alert e payload of Inl err \<Rightarrow> None | Inr a \<Rightarrow> Some a)"
| "created (Ev_tourist_violence_alert e payload) =
     (case map_tourist_violence_alert e payload of Inl err \<Rightarrow> None | Inr a \<Rightarrow> Some a)"
| "created (Ev_new_alert a) = Some a"
| "created _ = None"


section \<open>The alert panel\<close>

text \<open>
  \<^verbatim>\<open>AlertCard.tsx\<close> renders its action buttons under
  \<^verbatim>\<open>showActions && onAction && alert.status === 'pending'\<close> (three buttons) and
  \<^verbatim>\<open>showActions && onAction && alert.status === 'reviewing'\<close> (two buttons); a button
  calls \<^verbatim>\<open>onAction(alert.id, action)\<close>. \<open>Mark_false_positive\<close> is the action
  \<^verbatim>\<open>'false_positive'\<close>.
\<close>

datatype action = Review | Dispatch | Mark_false_positive

definition card_actions :: "bool \<Rightarrow> bool \<Rightarrow> status \<Rightarrow> action list" where
  "card_actions showActions onAction st =
     (if showActions \<and> onAction \<and> st = Pending
      then [Review, Dispatch, Mark_false_positive] else []) @
     (if showActions \<and> onAction \<and> st = Reviewing
      then [Dispatch, Mark_false_positive] else [])"

text \<open>
  \<^verbatim>\<open>AlertPanel.tsx\<close>: \<^verbatim>\<open>canDispatch\<close>, \<^verbatim>\<open>statusMap\<close> and \<^verbatim>\<open>handleAlertAction\<close>, which
  calls \<^verbatim>\<open>updateAlertStatus(alertId, statusMap[action], user?.id)\<close>. Of the user only
  \<^verbatim>\<open>id\<close> and \<^verbatim>\<open>role\<close> are read.
\<close>

datatype role = Admin | Dispatcher | Police | Tourism_officer | Auditor

record user =
  user_id :: string
  user_role :: role

definition canDispatch :: "user option \<Rightarrow> bool" where
  "canDispatch u =
     (case u of None \<Rightarrow> False | Some v \<Rightarrow> user_role v = Dispatcher \<or> user_role v = Admin)"

fun statusMap :: "action \<Rightarrow> status" where
  "statusMap Review = Reviewing"
| "statusMap Dispatch = Dispatched"
| "statusMap Mark_false_positive = False_positive"

definition handleAlertAction :: "user option \<Rightarrow> string \<Rightarrow> action \<Rightarrow> state \<Rightarrow> error + state" where
  "handleAlertAction u alertId act s =
     updateAlertStatus alertId (statusMap act) (map_option user_id u) s"

text \<open>
  The buttons the panel shows for an alert of the store. Pending and reviewing alerts
  get a card with \<^verbatim>\<open>onAction={canDispatch ? handleAlertAction : undefined}\<close> and
  \<^verbatim>\<open>showActions={canDispatch}\<close>; dispatched alerts (the first five of them) a card with
  \<^verbatim>\<open>showActions={false}\<close> and no \<^verbatim>\<open>onAction\<close>; alerts of any other status get no card.
\<close>

definition panel_actions :: "user option \<Rightarrow> alert \<Rightarrow> action list" where
  "panel_actions u a =
     (if status a = Pending \<or> status a = Reviewing
      then card_actions (canDispatch u) (canDispatch u) (status a)
      else if status a = Dispatched then card_actions False False (status a)
      else [])"


section \<open>The dispatcher overview\<close>

text \<open>
  \<^verbatim>\<open>DispatcherDashboard.tsx\<close> takes \<^verbatim>\<open>alerts\<close> from \<^verbatim>\<open>useSocket()\<close>, that is the array
  held in the provider's state, and on its overview tab (the tab it opens on) passes it
  to \<^verbatim>\<open>AlertSummary\<close>. Rendering, \<^verbatim>\<open>AlertSummary.tsx\<close> computes
  \<^verbatim>\<open>alerts.sort((a, b) => new Date(b.timestamp).getTime() - new Date(a.timestamp).getTime()).slice(0, 5)\<close>:
  \<^verbatim>\<open>sort\<close> sorts its receiver in place and only then is a copy taken, so the render
  leaves the stored array sorted by timestamp, latest first. The sort is stable.
  \<open>getTime\<close> is \<^verbatim>\<open>new Date(v).getTime()\<close>, on timestamps that denote a date.
\<close>

definition render_alert_summary :: "(jsval \<Rightarrow> int) \<Rightarrow> state \<Rightarrow> state" where
  "render_alert_summary getTime s =
     s\<lparr>alerts := sort_key (\<lambda>a. - getTime (timestamp a)) (alerts s)\<rparr>"

text \<open>
  The events as the provider handles them while the overview is shown: every state
  change is followed by a render of the dashboard.
\<close>

fun feed_rendered :: "(jsval \<Rightarrow> int) \<Rightarrow> event list \<Rightarrow> state \<Rightarrow> state" where
  "feed_rendered getTime [] s = s"
| "feed_rendered getTime (ev # evs) s =
     feed_rendered getTime evs (render_alert_summary getTime (handle ev s))"


section \<open>Notions used in the statements\<close>

text \<open>
  The events whose handler prepends an alert (\<^verbatim>\<open>alert\<close>, \<^verbatim>\<open>tourist_violence_alert\<close>,
  \<^verbatim>\<open>new_alert\<close>), and among them the two that build the alert themselves from an
  untyped payload.
\<close>

fun creating :: "event \<Rightarrow> bool" where
  "creating (Ev_alert e payload) = True"
| "creating (Ev_tourist_violence_alert e payload) = True"
| "creating (Ev_new_alert a) = True"
| "creating _ = False"

fun normalizing :: "event \<Rightarrow> bool" where
  "normalizing (Ev_alert e payload) = True"
| "normalizing (Ev_tourist_violence_alert e payload) = True"
| "normalizing _ = False"

text \<open>
  The four values of \<^verbatim>\<open>Alert['severity']\<close>, and the property the specification asks of
  a freshly created alert.
\<close>

definition severity_names :: "jsval list" where
  "severity_names = [JStr ''low'', JStr ''medium'', JStr ''high'', JStr ''critical'']"

definition well_formed :: "alert \<Rightarrow> bool" where
  "well_formed a =
     (severity a \<in> set severity_names \<and> 0 \<le> confidence a \<and> confidence a \<le> 1
      \<and> status a = Pending)"

text \<open>
  What a producer has to respect for that property to hold: a severity it supplies
  (a truthy \<^verbatim>\<open>details.severity\<close>) is one of the four names, and a confidence it supplies
  as a number lies between 0 and 1.
\<close>

fun producer_ok :: "event \<Rightarrow> bool" where
  "producer_ok (Ev_alert e payload) =
     (let details = or_else (opt_prop payload ''details'') (JObj []);
          sev = get_prop details ''severity'';
          conf = get_prop details ''confidence''
      in (if truthy sev then sev \<in> set severity_names else True)
         \<and> (case conf of JNum x \<Rightarrow> 0 \<le> x \<and> x \<le> 1 | _ \<Rightarrow> True))"
| "producer_ok _ = True"


section \<open>Example inputs\<close>

text \<open>
  Concrete values on which the theorems below are evaluated. The number conversion of
  the example environment is the right one on natural numbers.
\<close>

definition example_env :: env where
  "example_env =
     \<lparr> date_now = 1700000000000, random36 = ''k3j9x2'',
       iso_string = ''2023-11-14T22:13:20.000Z'',
       number_to_string = (\<lambda>x. show_nat (nat \<lfloor>x\<rfloor>)) \<rparr>"

definition pending_alert :: alert where
  "pending_alert =
     \<lparr> alert_id = ''a1'', alert_type = JStr ''violence'', severity = JStr ''high'',
       confidence = 9 / 10, timestamp = JStr ''2025-01-01T00:00:00.000Z'',
       location = \<lparr> lat = JNum 28, lng = JNum 77, address = JUndefined \<rparr>,
       camera_id = JStr ''cam_004'', tourist_ids = JArr [], evidence = JUndefined,
       status = Pending, assigned_to = None, description = JStr ''Violence detected'' \<rparr>"

definition online_state :: state where
  "online_state =
     initial_state\<lparr>socket := Some 1, connected := True, alerts := [pending_alert]\<rparr>"

definition offline_state :: state where
  "offline_state = initial_state\<lparr>socket := Some 1, alerts := [pending_alert]\<rparr>"

definition other_alert :: alert where
  "other_alert =
     \<lparr> alert_id = ''a2'', alert_type = JStr ''geofence'', severity = JStr ''low'',
       confidence = 1 / 2, timestamp = JStr ''2025-01-01T00:05:00.000Z'',
       location = \<lparr> lat = JNum 0, lng = JNum 0, address = JUndefined \<rparr>,
       camera_id = JUndefined, tourist_ids = JArr [JStr ''T7''], evidence = JUndefined,
       status = Reviewing, assigned_to = None, description = JStr ''Left the zone'' \<rparr>"

definition two_alert_state :: state where
  "two_alert_state =
     initial_state\<lparr>socket := Some 1, connected := True,
       alerts := [pending_alert, other_alert]\<rparr>"

definition resolved_update :: alert where
  "resolved_update = pending_alert\<lparr>status := Resolved, assigned_to := Some ''off_002''\<rparr>"

definition resolved_state :: state where
  "resolved_state =
     initial_state\<lparr>socket := Some 1, connected := True,
       alerts := [resolved_update, other_alert]\<rparr>"

definition dispatcher :: user where
  "dispatcher = \<lparr> user_id = ''u1'', user_role = Dispatcher \<rparr>"

text \<open>
  Scenario A of the specification; a payload that leaves every optional field out and
  spells the coordinates \<^verbatim>\<open>latitude\<close>, \<^verbatim>\<open>longitude\<close>; one whose severity and confidence
  are outside the model's ranges; and two \<^verbatim>\<open>tourist_violence_alert\<close> payloads, the first
  with a name that has no string conversion.
\<close>

definition scenario_a :: jsval where
  "scenario_a =
     JObj [(''details'',
        JObj [(''confidence'', JNum (92 / 100)), (''severity'', JStr ''high''),
              (''location'', JObj [(''lat'', JNum (2865 / 100)), (''lng'', JNum (7723 / 100))]),
              (''camera_id'', JStr ''cam_004''), (''description'', JStr ''Violence detected'')])]"

definition bare_payload :: jsval where
  "bare_payload =
     JObj [(''details'',
        JObj [(''location'', JObj [(''latitude'', JNum 12), (''longitude'', JNum 34)])])]"

definition bad_payload :: jsval where
  "bad_payload =
     JObj [(''type'', JStr ''violence''),
           (''details'',
              JObj [(''severity'', JStr ''extreme''), (''confidence'', JNum (15 / 2))])]"

text \<open>The time values of the timestamps of \<open>a1\<close> and \<open>a2\<close>, in milliseconds.\<close>

definition example_time :: "jsval \<Rightarrow> int" where
  "example_time v =
     (if v = JStr ''2025-01-01T00:00:00.000Z'' then 1735689600000
      else if v = JStr ''2025-01-01T00:05:00.000Z'' then 1735689900000
      else 0)"

definition unprintable_payload :: jsval where
  "unprintable_payload =
     JObj [(''tourist_id'', JStr ''T1''),
           (''tourist_name'', JObj [(''toString'', JNum 1)])]"

definition tourist_payload :: jsval where
  "tourist_payload =
     JObj [(''location'', JObj [(''latitude'', JNum 28), (''longitude'', JNum 77)]),
           (''camera_id'', JStr ''cam_002''),
           (''tourist_id'', JStr ''T1''), (''tourist_name'', JStr ''Asha'')]"


section \<open>Auxiliary facts\<close>

lemma guarded_emit_returns:
  "\<exists>s'. guarded_emit sock conn m s = Inr s' \<and> alerts s' = alerts s
     \<and> touristLocations s' = touristLocations s \<and> systemStatus s' = systemStatus s
     \<and> connected s' = connected s \<and> socket s' = socket s
     \<and> effect_socket s' = effect_socket s \<and> effect_connected s' = effect_connected s"
  by (simp add: guarded_emit_def split: option.splits)

lemma guarded_emit_off: "\<not> conn \<Longrightarrow> guarded_emit sock conn m s = Inr s"
  by (simp add: guarded_emit_def split: option.splits)

lemma guarded_emit_alerts: "guarded_emit sock conn m s = Inr s' \<Longrightarrow> alerts s' = alerts s"
  by (auto simp add: guarded_emit_def split: option.splits if_splits)

lemma exec_frame:
  "\<exists>s'. exec c s = Inr s' \<and> alerts s' = alerts s
     \<and> touristLocations s' = touristLocations s \<and> systemStatus s' = systemStatus s
     \<and> connected s' = connected s \<and> socket s' = socket s"
  using guarded_emit_returns [of "socket s" "connected s" _ s]
  by (cases c)
    (auto simp add: sendAlert_def updateAlertStatus_def subscribeToCamera_def
       unsubscribeFromCamera_def)

lemma run_frame:
  "\<exists>s'. run cs s = Inr s' \<and> alerts s' = alerts s
     \<and> touristLocations s' = touristLocations s \<and> systemStatus s' = systemStatus s
     \<and> connected s' = connected s \<and> socket s' = socket s"
proof (induction cs arbitrary: s)
  case Nil
  show ?case by simp
next
  case (Cons c cs)
  obtain s1 where step: "exec c s = Inr s1" "alerts s1 = alerts s"
      "touristLocations s1 = touristLocations s" "systemStatus s1 = systemStatus s"
      "connected s1 = connected s" "socket s1 = socket s"
    using exec_frame [of c s] by blast
  from Cons.IH [of s1] step show ?case by auto
qed

lemma handle_keeps_stored_alerts:
  assumes "\<forall>u. ev \<noteq> Ev_alert_updated u"
  shows "\<exists>pre. alerts (handle ev s) = pre @ alerts s"
proof (cases ev)
  case (Ev_alert e p)
  then show ?thesis by (simp add: on_alert_def split: sum.splits)
next
  case (Ev_tourist_violence_alert e p)
  then show ?thesis by (simp add: on_tourist_violence_alert_def split: sum.splits)
next
  case (Ev_new_alert a)
  then show ?thesis by (simp add: on_new_alert_def)
next
  case (Ev_alert_updated a)
  with assms show ?thesis by simp
next
  case (Ev_iot_band_update d)
  then show ?thesis
    by (auto simp add: on_iot_band_update_def split: sum.splits if_splits
          dest: guarded_emit_alerts)
qed (simp_all add: on_connect_def on_disconnect_def on_tourist_location_update_def
       on_system_status_update_def)

lemma on_alert_updated_nth:
  "i < length (alerts s) \<Longrightarrow>
   alerts (on_alert_updated u s) ! i =
     (if alert_id (alerts s ! i) = alert_id u then u else alerts s ! i)"
  by (simp add: on_alert_updated_def)

lemma truthy_not_nullish: "truthy v \<Longrightarrow> \<not> nullish v"
  by (cases v) simp_all

lemma coalesce_not_nullish: "\<not> nullish d \<Longrightarrow> \<not> nullish (coalesce v d)"
  by (simp add: coalesce_def)

text \<open>On a payload that is not nullish the body of the \<^verbatim>\<open>alert\<close> handler returns.\<close>

lemma map_alert_returns:
  assumes "\<not> nullish payload"
  shows "map_alert e payload =
    Inr \<lparr> alert_id = fresh_id e,
          alert_type = or_else (get_prop payload ''type'') (JStr ''violence''),
          severity =
            or_else (get_prop (or_else (get_prop payload ''details'') (JObj [])) ''severity'')
              (JStr ''high''),
          confidence =
            typeof_number_or
              (get_prop (or_else (get_prop payload ''details'') (JObj [])) ''confidence'')
              (8 / 10),
          timestamp = or_else (get_prop payload ''timestamp'') (JStr (iso_string e)),
          location =
            \<lparr> lat = coalesce (get_prop (or_else (get_prop (or_else (get_prop payload
                        ''details'') (JObj [])) ''location'') (JObj [])) ''lat'')
                      (coalesce (get_prop (or_else (get_prop (or_else (get_prop payload
                        ''details'') (JObj [])) ''location'') (JObj [])) ''latitude'') (JNum 0)),
              lng = coalesce (get_prop (or_else (get_prop (or_else (get_prop payload
                        ''details'') (JObj [])) ''location'') (JObj [])) ''lng'')
                      (coalesce (get_prop (or_else (get_prop (or_else (get_prop payload
                        ''details'') (JObj [])) ''location'') (JObj [])) ''longitude'') (JNum 0)),
              address = get_prop (or_else (get_prop (or_else (get_prop payload
                        ''details'') (JObj [])) ''location'') (JObj [])) ''address'' \<rparr>,
          camera_id = get_prop (or_else (get_prop payload ''details'') (JObj [])) ''camera_id'',
          tourist_ids =
            or_else (get_prop (or_else (get_prop payload ''details'') (JObj [])) ''tourist_ids'')
              (JArr []),
          evidence = get_prop (or_else (get_prop payload ''details'') (JObj [])) ''evidence'',
          status = Pending,
          assigned_to = None,
          description =
            or_else (get_prop (or_else (get_prop payload ''details'') (JObj [])) ''description'')
              (JStr ''Alert received'') \<rparr>"
  using assms by (simp add: map_alert_def read_prop_def opt_prop_def Let_def)

text \<open>
  The body of the \<^verbatim>\<open>tourist_violence_alert\<close> handler returns exactly when the payload is
  not nullish and the name converts to a string; what it returns has the literal fields.
\<close>

lemma map_tourist_violence_alert_fields:
  assumes "map_tourist_violence_alert e payload = Inr a"
  shows "alert_type a = JStr ''violence'' \<and> severity a = JStr ''high''
    \<and> confidence a = 9 / 10 \<and> status a = Pending"
  using assms
  by (auto simp add: map_tourist_violence_alert_def read_prop_def Let_def
        split: if_splits sum.splits)

lemma map_tourist_violence_alert_throws:
  assumes "nullish payload \<or>
    (\<exists>err. to_string (number_to_string e)
            (or_else (get_prop payload ''tourist_name'') (JStr '''')) = Inl err)"
  shows "\<exists>err. map_tourist_violence_alert e payload = Inl err"
  using assms
  by (auto simp add: map_tourist_violence_alert_def read_prop_def Let_def)

lemma map_tourist_violence_alert_returns:
  assumes "\<not> nullish payload"
    and "to_string (number_to_string e)
           (or_else (get_prop payload ''tourist_name'') (JStr '''')) = Inr name"
  shows "\<exists>a. map_tourist_violence_alert e payload = Inr a"
  using assms
  by (simp add: map_tourist_violence_alert_def read_prop_def Let_def)

lemma handle_creating:
  "creating ev \<Longrightarrow>
   alerts (handle ev s) = (case created ev of None \<Rightarrow> [] | Some a \<Rightarrow> [a]) @ alerts s"
  by (cases ev)
    (simp_all add: on_alert_def on_tourist_violence_alert_def on_new_alert_def
       split: sum.splits)



lemma created_normalizing_pending:
  "normalizing ev \<Longrightarrow> created ev = Some a \<Longrightarrow> status a = Pending"
  by (cases ev)
    (auto simp add: map_alert_def map_tourist_violence_alert_def Let_def split: sum.splits)

lemma typeof_number_or_range:
  "(case v of JNum x \<Rightarrow> 0 \<le> x \<and> x \<le> 1 | _ \<Rightarrow> True) \<Longrightarrow>
     0 \<le> typeof_number_or v (8 / 10) \<and> typeof_number_or v (8 / 10) \<le> 1"
  by (cases v) (simp_all add: typeof_number_or_def)

lemma or_else_severity:
  "(if truthy v then v \<in> set severity_names else True) \<Longrightarrow>
     or_else v (JStr ''high'') \<in> set severity_names"
  by (simp add: or_else_def severity_names_def split: if_splits)

lemma created_normalizing_well_formed:
  assumes "normalizing ev" "producer_ok ev" "created ev = Some a"
  shows "well_formed a"
proof (cases ev)
  case (Ev_alert e p)
  with assms(3) have nn: "\<not> nullish p"
    by (auto simp add: map_alert_def read_prop_def Let_def split: sum.splits if_splits)
  from Ev_alert assms(3) have a: "map_alert e p = Inr a"
    by (simp split: sum.splits)
  from Ev_alert assms(2) nn
  have sev: "(if truthy (get_prop (or_else (get_prop p ''details'') (JObj [])) ''severity'')
              then get_prop (or_else (get_prop p ''details'') (JObj [])) ''severity''
                     \<in> set severity_names
              else True)"
    and conf: "(case get_prop (or_else (get_prop p ''details'') (JObj [])) ''confidence'' of
                  JNum x \<Rightarrow> 0 \<le> x \<and> x \<le> 1 | _ \<Rightarrow> True)"
    by (simp_all add: Let_def opt_prop_def)
  from a show ?thesis
    unfolding map_alert_returns [OF nn] well_formed_def
    using or_else_severity [OF sev] typeof_number_or_range [OF conf] by auto
next
  case (Ev_tourist_violence_alert e p)
  with assms(3) show ?thesis
    by (auto simp add: map_tourist_violence_alert_def Let_def well_formed_def
          severity_names_def split: sum.splits)
qed (use assms(1) in simp_all)


section \<open>Lifecycle commands are not validated (C1)\<close>

text \<open>
  C1, as the specification states it: \<^verbatim>\<open>resolve(id)\<close> on an alert whose status is pending
  fails with \<open>LifecycleViolation\<close>, reported synchronously, and leaves the status pending.
  The code has no transition check: with the channel up, \<^verbatim>\<open>updateAlertStatus\<close> for the
  pending alert \<open>a1\<close> and the status \<open>Resolved\<close> returns normally and emits the request.
\<close>

theorem resolve_on_pending_not_rejected:
  "status pending_alert = Pending
   \<and> updateAlertStatus ''a1'' Resolved None online_state \<noteq> Inl LifecycleViolation
   \<and> updateAlertStatus ''a1'' Resolved None online_state =
       Inr (online_state\<lparr>emitted := [(1, Update_alert_status ''a1'' Resolved None)]\<rparr>)"
  by (simp add: updateAlertStatus_def guarded_emit_def online_state_def initial_state_def
        pending_alert_def)

text \<open>
  C1, amended: for every alert id, every requested status (a legal successor of the
  current one or not) and every assignee, \<^verbatim>\<open>updateAlertStatus\<close> returns without an
  error and leaves the stored alerts as they are, so a pending alert stays pending; with
  a socket and the channel connected it emits exactly one \<^verbatim>\<open>update_alert_status\<close>
  message carrying the requested status unchecked, otherwise it emits nothing.
\<close>

theorem updateAlertStatus_unchecked:
  "\<exists>s'. updateAlertStatus alertId st assignedTo s = Inr s'
     \<and> alerts s' = alerts s
     \<and> emitted s' = emitted s @
          (case socket s of
             Some k \<Rightarrow>
               if connected s then [(k, Update_alert_status alertId st assignedTo)] else []
           | None \<Rightarrow> [])"
  by (simp add: updateAlertStatus_def guarded_emit_def split: option.splits)

theorem updateAlertStatus_unchecked_witness:
  "\<exists>s'. updateAlertStatus ''a1'' Resolved None online_state = Inr s'
     \<and> map status (alerts s') = [Pending]
     \<and> emitted s' = [(1, Update_alert_status ''a1'' Resolved None)]"
  using updateAlertStatus_unchecked [of "''a1''" Resolved None online_state]
  by (auto simp add: online_state_def initial_state_def pending_alert_def)

section \<open>The authoritative update replaces by id (C2)\<close>

text \<open>
  C2: when an \<^verbatim>\<open>alert_updated\<close> event carries a record \<open>u\<close>, every stored alert whose id
  is that of \<open>u\<close> becomes \<open>u\<close> itself, whole, and every other stored alert is left as it
  was; this holds whatever commands \<open>cs\<close> were issued locally before the event arrived
  (the run of commands always returns, and what it did has no part in the result).
\<close>

theorem alert_updated_replaces_wholesale:
  "\<exists>s'. run cs s = Inr s'
     \<and> length (alerts (on_alert_updated u s')) = length (alerts s)
     \<and> (\<forall>i < length (alerts s).
           (alert_id (alerts s ! i) = alert_id u \<longrightarrow> alerts (on_alert_updated u s') ! i = u)
         \<and> (alert_id (alerts s ! i) \<noteq> alert_id u \<longrightarrow>
              alerts (on_alert_updated u s') ! i = alerts s ! i))"
proof -
  obtain s' where r: "run cs s = Inr s'" "alerts s' = alerts s"
    using run_frame [of cs s] by blast
  have "length (alerts (on_alert_updated u s')) = length (alerts s)"
    using r(2) by (simp add: on_alert_updated_def)
  moreover have "\<forall>i < length (alerts s).
           (alert_id (alerts s ! i) = alert_id u \<longrightarrow> alerts (on_alert_updated u s') ! i = u)
         \<and> (alert_id (alerts s ! i) \<noteq> alert_id u \<longrightarrow>
              alerts (on_alert_updated u s') ! i = alerts s ! i)"
    using on_alert_updated_nth [of _ s' u] r(2) by simp
  ultimately show ?thesis using r(1) by blast
qed

text \<open>
  The scenario of the specification: \<^verbatim>\<open>review\<close> is issued locally for \<open>a1\<close>, then the
  update with status resolved arrives; \<open>a1\<close> is the pushed record, \<open>a2\<close> is untouched.
\<close>

theorem alert_updated_replaces_wholesale_witness:
  "\<exists>s'. run [UpdateAlertStatus ''a1'' Reviewing None] two_alert_state = Inr s'
     \<and> length (alerts (on_alert_updated resolved_update s')) = 2
     \<and> alerts (on_alert_updated resolved_update s') ! 0 = resolved_update
     \<and> alerts (on_alert_updated resolved_update s') ! 1 = other_alert
     \<and> status resolved_update = Resolved"
proof -
  obtain s' where r: "run [UpdateAlertStatus ''a1'' Reviewing None] two_alert_state = Inr s'"
     "length (alerts (on_alert_updated resolved_update s')) = length (alerts two_alert_state)"
     "\<forall>i < length (alerts two_alert_state).
         (alert_id (alerts two_alert_state ! i) = alert_id resolved_update \<longrightarrow>
            alerts (on_alert_updated resolved_update s') ! i = resolved_update)
       \<and> (alert_id (alerts two_alert_state ! i) \<noteq> alert_id resolved_update \<longrightarrow>
            alerts (on_alert_updated resolved_update s') ! i = alerts two_alert_state ! i)"
    using alert_updated_replaces_wholesale
      [of "[UpdateAlertStatus ''a1'' Reviewing None]" two_alert_state resolved_update]
    by blast
  have len: "length (alerts two_alert_state) = 2"
    and same: "alert_id (alerts two_alert_state ! 0) = alert_id resolved_update"
    and diff: "alert_id (alerts two_alert_state ! 1) \<noteq> alert_id resolved_update"
    and snd: "alerts two_alert_state ! 1 = other_alert"
    by (simp_all add: two_alert_state_def initial_state_def resolved_update_def
          pending_alert_def other_alert_def)
  from r(3) len same have "alerts (on_alert_updated resolved_update s') ! 0 = resolved_update"
    by simp
  moreover from r(3) len diff snd
  have "alerts (on_alert_updated resolved_update s') ! 1 = other_alert"
    by simp
  moreover have "status resolved_update = Resolved"
    by (simp add: resolved_update_def)
  ultimately show ?thesis using r(1) r(2) len by auto
qed


section \<open>Commands while disconnected (C3)\<close>

text \<open>
  C3, as the specification states it: a command attempted while the channel is
  disconnected fails with \<open>ChannelUnavailable\<close>, surfaced to the caller, and is never
  silently dropped. In the code each of the four commands, called while disconnected,
  returns normally and leaves the state exactly as it was: nothing is emitted and
  nothing is reported.
\<close>

theorem offline_commands_silently_dropped:
  "\<not> connected offline_state
   \<and> sendAlert (JObj [(''type'', JStr ''panic'')]) offline_state = Inr offline_state
   \<and> updateAlertStatus ''a1'' Dispatched (Some ''u1'') offline_state = Inr offline_state
   \<and> subscribeToCamera ''cam_004'' offline_state = Inr offline_state
   \<and> unsubscribeFromCamera ''cam_004'' offline_state = Inr offline_state
   \<and> updateAlertStatus ''a1'' Dispatched (Some ''u1'') offline_state \<noteq> Inl ChannelUnavailable"
  by (simp add: sendAlert_def updateAlertStatus_def subscribeToCamera_def
        unsubscribeFromCamera_def guarded_emit_def offline_state_def initial_state_def)

text \<open>
  C3, amended: while the channel is disconnected, each of \<^verbatim>\<open>sendAlert\<close>,
  \<^verbatim>\<open>updateAlertStatus\<close>, \<^verbatim>\<open>subscribeToCamera\<close> and \<^verbatim>\<open>unsubscribeFromCamera\<close> returns
  without an error and without any effect: the state after the call is the state before
  it, so the command is neither sent nor kept for later.
\<close>

theorem disconnected_command_is_dropped:
  assumes "\<not> connected s"
  shows "sendAlert a s = Inr s
    \<and> updateAlertStatus alertId st assignedTo s = Inr s
    \<and> subscribeToCamera cameraId s = Inr s
    \<and> unsubscribeFromCamera cameraId s = Inr s"
  using assms
  by (simp add: sendAlert_def updateAlertStatus_def subscribeToCamera_def
        unsubscribeFromCamera_def guarded_emit_off)

theorem disconnected_command_is_dropped_witness:
  "\<not> connected offline_state
   \<and> sendAlert (JObj []) offline_state = Inr offline_state
   \<and> updateAlertStatus ''a1'' Reviewing None offline_state = Inr offline_state
   \<and> subscribeToCamera ''cam_001'' offline_state = Inr offline_state
   \<and> unsubscribeFromCamera ''cam_001'' offline_state = Inr offline_state
   \<and> emitted offline_state = []"
proof -
  have off: "\<not> connected offline_state"
    by (simp add: offline_state_def initial_state_def)
  have "emitted offline_state = []"
    by (simp add: offline_state_def initial_state_def)
  with off
    disconnected_command_is_dropped
      [OF off, of "JObj []" "''a1''" Reviewing None "''cam_001''"]
  show ?thesis by simp
qed


section \<open>Commands write nothing to the store (C10)\<close>

text \<open>
  C10: a call of any of the four outbound commands, and so any run \<open>cs\<close> of them,
  connected or not, returns and leaves the alerts, the tourist locations, the system
  status and the connection flag as they were; so does \<^verbatim>\<open>handleAlertAction\<close>, the
  panel's way to \<^verbatim>\<open>updateAlertStatus\<close>. Nor does any inbound event other than
  \<^verbatim>\<open>alert_updated\<close> change a stored alert afterwards: it keeps the stored sequence as
  the tail of the new one. There is no optimistic local mutation.
\<close>

theorem commands_never_mutate_store:
  "\<exists>s'. run cs s = Inr s'
     \<and> alerts s' = alerts s
     \<and> touristLocations s' = touristLocations s
     \<and> systemStatus s' = systemStatus s
     \<and> connected s' = connected s
     \<and> (\<exists>s''. handleAlertAction usr alertId act s = Inr s'' \<and> alerts s'' = alerts s
            \<and> touristLocations s'' = touristLocations s
            \<and> systemStatus s'' = systemStatus s \<and> connected s'' = connected s)
     \<and> ((\<forall>u. ev \<noteq> Ev_alert_updated u) \<longrightarrow>
          (\<exists>pre. alerts (handle ev s') = pre @ alerts s))"
proof -
  obtain s' where r: "run cs s = Inr s'" "alerts s' = alerts s"
      "touristLocations s' = touristLocations s" "systemStatus s' = systemStatus s"
      "connected s' = connected s"
    using run_frame [of cs s] by blast
  have "(\<forall>u. ev \<noteq> Ev_alert_updated u) \<longrightarrow>
          (\<exists>pre. alerts (handle ev s') = pre @ alerts s)"
    using handle_keeps_stored_alerts [of ev s'] r(2) by simp
  moreover
  have "\<exists>s''. handleAlertAction usr alertId act s = Inr s'' \<and> alerts s'' = alerts s
            \<and> touristLocations s'' = touristLocations s
            \<and> systemStatus s'' = systemStatus s \<and> connected s'' = connected s"
    using guarded_emit_returns [of "socket s" "connected s" _ s]
    by (auto simp add: handleAlertAction_def updateAlertStatus_def)
  ultimately show ?thesis using r by blast
qed

theorem commands_never_mutate_store_witness:
  "\<exists>s'. run [UpdateAlertStatus ''a1'' Reviewing (Some ''u1''), SendAlert (JObj []),
             SubscribeToCamera ''cam_004'', UnsubscribeFromCamera ''cam_004'']
           online_state = Inr s'
     \<and> alerts s' = [pending_alert]
     \<and> map status (alerts s') = [Pending]
     \<and> touristLocations s' = []
     \<and> systemStatus s' = systemStatus initial_state
     \<and> connected s'
     \<and> (\<exists>s''. handleAlertAction (Some dispatcher) ''a1'' Review online_state = Inr s''
            \<and> map status (alerts s'') = [Pending])
     \<and> (\<exists>pre. alerts (handle Ev_disconnect s') = pre @ [pending_alert])"
  using commands_never_mutate_store
    [of "[UpdateAlertStatus ''a1'' Reviewing (Some ''u1''), SendAlert (JObj []),
          SubscribeToCamera ''cam_004'', UnsubscribeFromCamera ''cam_004'']"
        online_state "Some dispatcher" "''a1''" Review Ev_disconnect]
  by (auto simp add: online_state_def initial_state_def pending_alert_def)

section \<open>What the normalising handlers produce (C4, C5, C7)\<close>

text \<open>
  C4, as the specification states it: every alert added for a detection or panic event
  has a severity among low, medium, high, critical, a confidence in [0,1] and status
  pending, whatever the payload carries. The \<^verbatim>\<open>alert\<close> handler copies a truthy
  \<^verbatim>\<open>details.severity\<close> and a numeric \<^verbatim>\<open>details.confidence\<close> unchecked: the payload
  with severity \<^verbatim>\<open>"extreme"\<close> and confidence 7.5 yields an alert with those values.
\<close>

theorem unvalidated_severity_and_confidence:
  "\<not> nullish bad_payload
   \<and> (\<exists>a. alerts (on_alert example_env bad_payload initial_state) = [a]
        \<and> severity a = JStr ''extreme'' \<and> severity a \<notin> set severity_names
        \<and> confidence a = 15 / 2 \<and> \<not> confidence a \<le> 1 \<and> \<not> well_formed a)"
  by (simp add: on_alert_def map_alert_def read_prop_def bad_payload_def initial_state_def
        or_else_def opt_prop_def coalesce_def typeof_number_or_def severity_names_def
        well_formed_def)

text \<open>
  C4, amended: for every sequence \<open>evs\<close> of \<^verbatim>\<open>alert\<close> and \<^verbatim>\<open>tourist_violence_alert\<close>
  events, the alerts \<open>new\<close> it adds in front of the store all have status pending; and
  when every payload of the sequence that supplies a severity supplies one of the four
  names, and every payload that supplies a numeric confidence supplies one in [0,1],
  each added alert also has its severity among the four names and its confidence in
  [0,1].
\<close>

theorem normalized_alerts_pending:
  assumes "\<forall>ev \<in> set evs. normalizing ev"
  shows "\<exists>new. alerts (feed evs s) = new @ alerts s
      \<and> (\<forall>a \<in> set new. status a = Pending)
      \<and> ((\<forall>ev \<in> set evs. producer_ok ev) \<longrightarrow> (\<forall>a \<in> set new. well_formed a))"
  using assms
proof (induction evs arbitrary: s)
  case Nil
  show ?case by simp
next
  case (Cons ev evs)
  then have n: "normalizing ev" and rest: "\<forall>x \<in> set evs. normalizing x"
    by simp_all
  from n have cr: "creating ev" by (cases ev) simp_all
  define pre where "pre = (case created ev of None \<Rightarrow> [] | Some a \<Rightarrow> [a])"
  have step: "alerts (handle ev s) = pre @ alerts s"
    using handle_creating [OF cr] by (simp add: pre_def)
  have p1: "\<forall>a \<in> set pre. status a = Pending"
    using created_normalizing_pending [OF n] by (auto simp add: pre_def split: option.splits)
  have p2: "producer_ok ev \<longrightarrow> (\<forall>a \<in> set pre. well_formed a)"
    using created_normalizing_well_formed [OF n]
    by (auto simp add: pre_def split: option.splits)
  from Cons.IH [OF rest, of "handle ev s"] obtain new where
    new: "alerts (feed evs (handle ev s)) = new @ alerts (handle ev s)"
      "\<forall>a \<in> set new. status a = Pending"
      "(\<forall>ev \<in> set evs. producer_ok ev) \<longrightarrow> (\<forall>a \<in> set new. well_formed a)"
    by blast
  have "alerts (feed (ev # evs) s) = (new @ pre) @ alerts s"
    using new(1) step by simp
  moreover have "\<forall>a \<in> set (new @ pre). status a = Pending"
    using new(2) p1 by auto
  moreover have "(\<forall>x \<in> set (ev # evs). producer_ok x) \<longrightarrow>
      (\<forall>a \<in> set (new @ pre). well_formed a)"
    using new(3) p2 by auto
  ultimately show ?case by blast
qed

theorem normalized_alerts_pending_witness:
  "list_all normalizing
     [Ev_alert example_env scenario_a, Ev_tourist_violence_alert example_env tourist_payload]
   \<and> list_all producer_ok
     [Ev_alert example_env scenario_a, Ev_tourist_violence_alert example_env tourist_payload]
   \<and> length (alerts (feed
        [Ev_alert example_env scenario_a, Ev_tourist_violence_alert example_env tourist_payload]
        initial_state)) = 2
   \<and> list_all well_formed (alerts (feed
        [Ev_alert example_env scenario_a, Ev_tourist_violence_alert example_env tourist_payload]
        initial_state))"
proof -
  let ?evs =
    "[Ev_alert example_env scenario_a, Ev_tourist_violence_alert example_env tourist_payload]"
  have n: "\<forall>ev \<in> set ?evs. normalizing ev" by simp
  have ok: "\<forall>ev \<in> set ?evs. producer_ok ev"
    by (simp add: scenario_a_def opt_prop_def or_else_def severity_names_def)
  have len: "length (alerts (feed ?evs initial_state)) = 2"
    by (simp add: on_alert_def on_tourist_violence_alert_def map_alert_def
          map_tourist_violence_alert_def read_prop_def scenario_a_def tourist_payload_def
          initial_state_def Let_def or_else_def)
  from normalized_alerts_pending [OF n, of initial_state] ok
  obtain new where "alerts (feed ?evs initial_state) = new @ alerts initial_state"
     "\<forall>a \<in> set new. well_formed a"
    by blast
  then have "list_all well_formed (alerts (feed ?evs initial_state))"
    by (simp add: initial_state_def list_all_iff)
  with n ok len show ?thesis by (simp add: list_all_iff)
qed

text \<open>
  C5, as the specification states it: the alert created for a wearable-panic envelope
  (payload \<^verbatim>\<open>{location, camera_id?, tourist_id, tourist_name?}\<close>, the event
  \<^verbatim>\<open>tourist_violence_alert\<close>) has type panic. The handler writes the type
  \<^verbatim>\<open>'violence'\<close>.
\<close>

theorem tourist_violence_alert_type_is_not_panic:
  "\<not> nullish tourist_payload
   \<and> (\<exists>a. alerts (on_tourist_violence_alert example_env tourist_payload initial_state) = [a]
        \<and> alert_type a = JStr ''violence'' \<and> alert_type a \<noteq> JStr ''panic'')"
  by (simp add: on_tourist_violence_alert_def map_tourist_violence_alert_def read_prop_def
        tourist_payload_def initial_state_def or_else_def opt_prop_def coalesce_def Let_def
        example_env_def)

text \<open>
  C5, amended: the \<^verbatim>\<open>tourist_violence_alert\<close> handler creates an alert exactly when the
  payload is an envelope at all (not \<^verbatim>\<open>null\<close> or \<^verbatim>\<open>undefined\<close>) and
  \<^verbatim>\<open>tourist_name || ''\<close> converts to a string; otherwise its \<^verbatim>\<open>catch\<close> drops the event
  and the state is unchanged. The alert it creates is prepended and has type violence,
  severity high and status pending. In particular this is so for every envelope of the
  documented shape, whose \<^verbatim>\<open>tourist_name\<close> is absent or a string.
\<close>

theorem tourist_violence_alert_fields:
  "(if nullish payload \<or>
        (\<exists>err. to_string (number_to_string e)
                (or_else (get_prop payload ''tourist_name'') (JStr '''')) = Inl err)
    then on_tourist_violence_alert e payload s = s
    else \<exists>a. alerts (on_tourist_violence_alert e payload s) = a # alerts s
           \<and> alert_type a = JStr ''violence'' \<and> severity a = JStr ''high''
           \<and> status a = Pending)
   \<and> (\<not> nullish payload
        \<and> (get_prop payload ''tourist_name'' = JUndefined
             \<or> (\<exists>n. get_prop payload ''tourist_name'' = JStr n)) \<longrightarrow>
        (\<exists>a. alerts (on_tourist_violence_alert e payload s) = a # alerts s
           \<and> alert_type a = JStr ''violence'' \<and> severity a = JStr ''high''
           \<and> status a = Pending))"
proof -
  let ?name = "or_else (get_prop payload ''tourist_name'') (JStr '''')"
  let ?created = "\<exists>a. alerts (on_tourist_violence_alert e payload s) = a # alerts s
           \<and> alert_type a = JStr ''violence'' \<and> severity a = JStr ''high''
           \<and> status a = Pending"
  have created: ?created
    if nn: "\<not> nullish payload" and ok: "to_string (number_to_string e) ?name = Inr name"
    for name
  proof -
    from map_tourist_violence_alert_returns [OF nn ok]
    obtain a where a: "map_tourist_violence_alert e payload = Inr a"
      by blast
    with map_tourist_violence_alert_fields [OF a] show ?thesis
      by (auto simp add: on_tourist_violence_alert_def)
  qed
  have dropped: "on_tourist_violence_alert e payload s = s"
    if "nullish payload \<or> (\<exists>err. to_string (number_to_string e) ?name = Inl err)"
    using map_tourist_violence_alert_throws [OF that]
    by (auto simp add: on_tourist_violence_alert_def)
  have first: "if nullish payload \<or> (\<exists>err. to_string (number_to_string e) ?name = Inl err)
    then on_tourist_violence_alert e payload s = s else ?created"
  proof (cases "nullish payload \<or> (\<exists>err. to_string (number_to_string e) ?name = Inl err)")
    case True
    with dropped show ?thesis by simp
  next
    case False
    then have nn: "\<not> nullish payload" by simp
    from False obtain name where "to_string (number_to_string e) ?name = Inr name"
      by (cases "to_string (number_to_string e) ?name") auto
    from created [OF nn this] False show ?thesis by simp
  qed
  have second: ?created
    if nn: "\<not> nullish payload"
      and shape: "get_prop payload ''tourist_name'' = JUndefined
             \<or> (\<exists>n. get_prop payload ''tourist_name'' = JStr n)"
  proof -
    from shape have "\<exists>name. to_string (number_to_string e) ?name = Inr name"
      by (auto simp add: or_else_def)
    then obtain name where "to_string (number_to_string e) ?name = Inr name" ..
    from created [OF nn this] show ?thesis .
  qed
  from first second show ?thesis by blast
qed

text \<open>
  An envelope of the documented shape, and one whose \<^verbatim>\<open>tourist_name\<close> is the object
  \<^verbatim>\<open>{"toString": 1}\<close>, which no template literal can convert.
\<close>

theorem tourist_violence_alert_fields_witness:
  "\<not> nullish tourist_payload
   \<and> get_prop tourist_payload ''tourist_name'' = JStr ''Asha''
   \<and> (\<exists>a. alerts (on_tourist_violence_alert example_env tourist_payload online_state)
            = [a, pending_alert]
        \<and> alert_type a = JStr ''violence'' \<and> severity a = JStr ''high''
        \<and> status a = Pending)
   \<and> to_string (number_to_string example_env)
         (or_else (get_prop unprintable_payload ''tourist_name'') (JStr '''')) = Inl TypeError
   \<and> on_tourist_violence_alert example_env unprintable_payload online_state = online_state"
proof -
  have nn: "\<not> nullish tourist_payload"
    and name: "get_prop tourist_payload ''tourist_name'' = JStr ''Asha''"
    by (simp_all add: tourist_payload_def)
  have st: "alerts online_state = [pending_alert]"
    by (simp add: online_state_def initial_state_def)
  have bad: "to_string (number_to_string example_env)
         (or_else (get_prop unprintable_payload ''tourist_name'') (JStr '''')) = Inl TypeError"
    by (simp add: unprintable_payload_def or_else_def)
  from tourist_violence_alert_fields [of tourist_payload example_env online_state] nn name st
  have "\<exists>a. alerts (on_tourist_violence_alert example_env tourist_payload online_state)
            = [a, pending_alert]
        \<and> alert_type a = JStr ''violence'' \<and> severity a = JStr ''high''
        \<and> status a = Pending"
    by auto
  moreover
  from tourist_violence_alert_fields [of unprintable_payload example_env online_state] bad
  have "on_tourist_violence_alert example_env unprintable_payload online_state = online_state"
    by auto
  ultimately show ?thesis using nn name bad by blast
qed

text \<open>
  C7: for every detection envelope (a payload of the \<^verbatim>\<open>alert\<close> event that is not
  \<^verbatim>\<open>null\<close> or \<^verbatim>\<open>undefined\<close>) the handler prepends exactly one alert, with status
  pending. An omitted severity becomes high, an omitted confidence 0.8, an omitted
  description "Alert received", an omitted type violence; a supplied (truthy) value is
  kept. The coordinates are read from \<^verbatim>\<open>lat\<close>, \<^verbatim>\<open>lng\<close> when present and from
  \<^verbatim>\<open>latitude\<close>, \<^verbatim>\<open>longitude\<close> otherwise. Every required field of the alert is
  populated: none is \<^verbatim>\<open>null\<close> or \<^verbatim>\<open>undefined\<close>.
\<close>

theorem detection_alert_defaults:
  assumes "\<not> nullish payload"
  shows "let details = or_else (get_prop payload ''details'') (JObj []);
             loc = or_else (get_prop details ''location'') (JObj [])
         in \<exists>a. alerts (on_alert e payload s) = a # alerts s
              \<and> status a = Pending
              \<and> (get_prop details ''severity'' = JUndefined \<longrightarrow> severity a = JStr ''high'')
              \<and> (get_prop details ''confidence'' = JUndefined \<longrightarrow> confidence a = 8 / 10)
              \<and> (get_prop details ''description'' = JUndefined \<longrightarrow>
                    description a = JStr ''Alert received'')
              \<and> (get_prop payload ''type'' = JUndefined \<longrightarrow> alert_type a = JStr ''violence'')
              \<and> (truthy (get_prop details ''severity'') \<longrightarrow>
                    severity a = get_prop details ''severity'')
              \<and> (case get_prop details ''confidence'' of
                    JNum x \<Rightarrow> confidence a = x | _ \<Rightarrow> confidence a = 8 / 10)
              \<and> (truthy (get_prop details ''description'') \<longrightarrow>
                    description a = get_prop details ''description'')
              \<and> (truthy (get_prop payload ''type'') \<longrightarrow> alert_type a = get_prop payload ''type'')
              \<and> (\<not> nullish (get_prop loc ''lat'') \<longrightarrow> lat (location a) = get_prop loc ''lat'')
              \<and> (\<not> nullish (get_prop loc ''lng'') \<longrightarrow> lng (location a) = get_prop loc ''lng'')
              \<and> (nullish (get_prop loc ''lat'') \<and> \<not> nullish (get_prop loc ''latitude'') \<longrightarrow>
                    lat (location a) = get_prop loc ''latitude'')
              \<and> (nullish (get_prop loc ''lng'') \<and> \<not> nullish (get_prop loc ''longitude'') \<longrightarrow>
                    lng (location a) = get_prop loc ''longitude'')
              \<and> \<not> nullish (alert_type a) \<and> \<not> nullish (severity a)
              \<and> \<not> nullish (timestamp a) \<and> \<not> nullish (lat (location a))
              \<and> \<not> nullish (lng (location a)) \<and> \<not> nullish (tourist_ids a)
              \<and> \<not> nullish (description a)"
proof -
  have pop: "\<not> nullish (or_else v (JStr d))" for v d
    by (simp add: or_else_def truthy_not_nullish)
  have arr: "\<not> nullish (or_else v (JArr []))" for v
    by (simp add: or_else_def truthy_not_nullish)
  have num: "\<not> nullish (coalesce v (coalesce w (JNum 0)))" for v w
    by (simp add: coalesce_not_nullish)
  show ?thesis
    unfolding Let_def on_alert_def map_alert_returns [OF assms]
    apply (simp add: pop arr num)
    apply (simp add: or_else_def coalesce_def typeof_number_or_def split: jsval.splits)
    done
qed

text \<open>
  Scenario A (every field supplied but the type, coordinates as \<^verbatim>\<open>lat\<close>, \<^verbatim>\<open>lng\<close>), and
  a payload with nothing but coordinates spelt \<^verbatim>\<open>latitude\<close>, \<^verbatim>\<open>longitude\<close>.
\<close>

theorem detection_alert_defaults_witness:
  "\<not> nullish scenario_a \<and> \<not> nullish bare_payload
   \<and> (\<exists>a. alerts (on_alert example_env scenario_a online_state) = [a, pending_alert]
         \<and> status a = Pending \<and> alert_type a = JStr ''violence''
         \<and> severity a = JStr ''high'' \<and> confidence a = 92 / 100
         \<and> description a = JStr ''Violence detected''
         \<and> lat (location a) = JNum (2865 / 100) \<and> lng (location a) = JNum (7723 / 100))
   \<and> (\<exists>a. alerts (on_alert example_env bare_payload online_state) = [a, pending_alert]
         \<and> status a = Pending \<and> alert_type a = JStr ''violence''
         \<and> severity a = JStr ''high'' \<and> confidence a = 8 / 10
         \<and> description a = JStr ''Alert received''
         \<and> lat (location a) = JNum 12 \<and> lng (location a) = JNum 34)"
proof -
  have nn: "\<not> nullish scenario_a" "\<not> nullish bare_payload"
    by (simp_all add: scenario_a_def bare_payload_def)
  have st: "alerts online_state = [pending_alert]"
    by (simp add: online_state_def initial_state_def)
  have a: "\<exists>a. alerts (on_alert example_env scenario_a online_state) = [a, pending_alert]
         \<and> status a = Pending \<and> alert_type a = JStr ''violence''
         \<and> severity a = JStr ''high'' \<and> confidence a = 92 / 100
         \<and> description a = JStr ''Violence detected''
         \<and> lat (location a) = JNum (2865 / 100) \<and> lng (location a) = JNum (7723 / 100)"
    using detection_alert_defaults [OF nn(1), of example_env online_state] st
    by (auto simp add: scenario_a_def or_else_def Let_def)
  have b: "\<exists>a. alerts (on_alert example_env bare_payload online_state) = [a, pending_alert]
         \<and> status a = Pending \<and> alert_type a = JStr ''violence''
         \<and> severity a = JStr ''high'' \<and> confidence a = 8 / 10
         \<and> description a = JStr ''Alert received''
         \<and> lat (location a) = JNum 12 \<and> lng (location a) = JNum 34"
    using detection_alert_defaults [OF nn(2), of example_env online_state] st
    by (auto simp add: bare_payload_def or_else_def Let_def)
  from nn a b show ?thesis by blast
qed


section \<open>Order and identity in the store (C8, C9)\<close>

text \<open>
  C8: an event that creates an alert puts it at the front of the stored sequence, keeps
  the sequence it found as the tail, and no reordering by timestamp is ever performed.
  The handlers do prepend, but on the dispatcher overview the render that follows sorts
  the stored array itself by timestamp. Here \<open>a2\<close> (timestamp 00:05) is pushed first and
  \<open>a1\<close> (timestamp 00:00) second: arrival order, newest first, is \<open>a1\<close>, \<open>a2\<close>, which is
  what the handlers alone leave; the store of the running overview holds \<open>a2\<close>, \<open>a1\<close>.
\<close>

theorem overview_render_sorts_store_by_timestamp:
  "alerts (feed [Ev_new_alert other_alert, Ev_new_alert pending_alert] initial_state)
     = [pending_alert, other_alert]
   \<and> alerts (feed_rendered example_time
        [Ev_new_alert other_alert, Ev_new_alert pending_alert] initial_state)
     = [other_alert, pending_alert]"
  by (simp add: on_new_alert_def render_alert_summary_def initial_state_def
        pending_alert_def other_alert_def example_time_def)





section \<open>Terminal statuses (C6)\<close>

text \<open>
  C6, as the specification states it: once an alert is resolved or false positive,
  replacing it by a record with the same id and a non-terminal status does not regress
  it, unless the record is flagged authoritative-reset. The record has no such flag and
  \<^verbatim>\<open>alert_updated\<close> replaces unconditionally: the resolved \<open>a1\<close> becomes pending again.
\<close>

theorem alert_updated_regresses_terminal_status:
  "map status (alerts resolved_state) = [Resolved, Reviewing]
   \<and> alert_id pending_alert = alert_id resolved_update
   \<and> map status (alerts (on_alert_updated pending_alert resolved_state))
       = [Pending, Reviewing]"
  by (simp add: on_alert_updated_def resolved_state_def initial_state_def resolved_update_def
        pending_alert_def other_alert_def)

text \<open>
  C6, amended: once an alert \<open>a\<close> is resolved or false positive, no review or dispatch
  call changes its status: the panel renders no action button for it, and
  \<^verbatim>\<open>handleAlertAction\<close> and \<^verbatim>\<open>updateAlertStatus\<close>, however called, leave the stored
  alerts as they are. An \<^verbatim>\<open>alert_updated\<close> record \<open>u\<close> with the id of \<open>a\<close>, however,
  always takes its place, so that the stored status becomes the status of \<open>u\<close>,
  terminal or not.
\<close>

theorem terminal_status_changed_only_by_update:
  assumes "status a = Resolved \<or> status a = False_positive"
  shows "panel_actions usr a = []
    \<and> card_actions showActions onAction (status a) = []
    \<and> (\<exists>s'. handleAlertAction usr (alert_id a) act s = Inr s' \<and> alerts s' = alerts s)
    \<and> (\<exists>s'. updateAlertStatus (alert_id a) st assignedTo s = Inr s' \<and> alerts s' = alerts s)
    \<and> (\<forall>i < length (alerts s). alerts s ! i = a \<and> alert_id u = alert_id a \<longrightarrow>
          status (alerts (on_alert_updated u s) ! i) = status u)"
proof -
  have "panel_actions usr a = []" "card_actions showActions onAction (status a) = []"
    using assms by (auto simp add: panel_actions_def card_actions_def)
  moreover
  have "\<exists>s'. handleAlertAction usr (alert_id a) act s = Inr s' \<and> alerts s' = alerts s"
    using guarded_emit_returns [of "socket s" "connected s" _ s]
    by (auto simp add: handleAlertAction_def updateAlertStatus_def)
  moreover
  have "\<exists>s'. updateAlertStatus (alert_id a) st assignedTo s = Inr s' \<and> alerts s' = alerts s"
    using guarded_emit_returns [of "socket s" "connected s" _ s]
    by (auto simp add: updateAlertStatus_def)
  moreover
  have "\<forall>i < length (alerts s). alerts s ! i = a \<and> alert_id u = alert_id a \<longrightarrow>
          status (alerts (on_alert_updated u s) ! i) = status u"
    by (simp add: on_alert_updated_nth)
  ultimately show ?thesis by blast
qed

theorem terminal_status_changed_only_by_update_witness:
  "status resolved_update = Resolved
   \<and> panel_actions (Some dispatcher) resolved_update = []
   \<and> card_actions True True (status resolved_update) = []
   \<and> (\<exists>s'. handleAlertAction (Some dispatcher) ''a1'' Dispatch resolved_state = Inr s'
         \<and> map status (alerts s') = [Resolved, Reviewing])
   \<and> status (alerts (on_alert_updated pending_alert resolved_state) ! 0) = Pending"
proof -
  have t: "status resolved_update = Resolved \<or> status resolved_update = False_positive"
    by (simp add: resolved_update_def)
  have facts: "alert_id resolved_update = ''a1''" "alert_id pending_alert = ''a1''"
      "alerts resolved_state = [resolved_update, other_alert]"
      "status resolved_update = Resolved" "status other_alert = Reviewing"
      "status pending_alert = Pending"
    by (simp_all add: resolved_update_def pending_alert_def other_alert_def
          resolved_state_def initial_state_def)
  from terminal_status_changed_only_by_update
      [OF t, of "Some dispatcher" True True Dispatch resolved_state Reviewing None
        pending_alert]
    facts
  show ?thesis by auto
qed


end
